theory Spec2Isabelle
  imports Main
begin

section \<open>Data model of sw_manager.py\<close>

text \<open>
  The workload manager reads configuration dictionaries, turns them into doit task
  dictionaries (\<open>addDep\<close>), and runs build actions (\<open>makeBin\<close>, \<open>makeImage\<close>,
  \<open>copyImgFiles\<close>) that drive external programs. The embedding keeps the dictionaries
  as records whose optional keys are \<open>option\<close> fields: the test \<open>'k' in config\<close> is
  \<open>k config \<noteq> None\<close>, and the subscript \<open>config['k']\<close> on an absent key raises
  \<open>KeyError\<close>. The keys \<open>name\<close> and \<open>bin\<close> are never tested for membership by
  the code and are read unconditionally by every rule; they are plain fields.
\<close>

text \<open>\<open>FileSpec\<close> and \<open>RunSpec\<close> of util.config: the attributes the manager reads.\<close>

record FileSpec =
  src :: string
  dst :: string

record RunSpec =
  command :: "string option"
  path :: "string option"

record config =
  name :: string
  bin :: string
  img :: "string option"
  initramfs :: "bool option"
  linux_config :: "string option"
  linux_src :: "string option"
  base_img :: "string option"
  files :: "FileSpec list option"
  guest_init :: "string option"
  runSpec :: "RunSpec option"
  cfg_file :: "string option"
  builder :: "string option"



subsection \<open>External effects\<close>

text \<open>
  Every call that leaves the process is an event: \<open>run\<close> of util.util (with an
  argument vector, or a string under \<open>shell=True\<close>), \<open>subprocess.check_call\<close>,
  the \<open>shutil\<close>/\<open>os\<close> file operations, the temporary file of \<open>makeBin\<close>, and
  the helpers of util and of the distribution builder.
\<close>

datatype cmdline = Argv "string list" | Shell string

datatype event =
    Run cmdline "string option"
  | CheckCall string
  | Copy string string
  | Rmtree string
  | Mkdir string
  | NamedTemporaryFile string
  | CloseTemporaryFile string
  | ToCpio config string string
  | ConvertInitramfsConfig string string
  | GenerateBootScriptOverlay string "string option"
  | GenRunScript string

datatype pyerror =
    KeyError string
  | ValueError string
  | TypeError
  | ExternalFailure event

text \<open>
  The host: the constants \<open>mnt\<close> and \<open>jlevel\<close> of util.util, the user id, and the
  answers of the outside world, each of which may depend on everything done so far
  (the list of events): whether a path exists, whether an external call raises, and
  the string an external helper returns.
\<close>

record env =
  mnt :: string
  jlevel :: string
  getuid :: nat
  path_exists :: "event list \<Rightarrow> string \<Rightarrow> bool"
  fails :: "event list \<Rightarrow> event \<Rightarrow> bool"
  returns :: "event list \<Rightarrow> event \<Rightarrow> string"

text \<open>
  An action maps the events so far to its outcome (an exception or a value) and the
  events extended by what it did. A call that raises has still been made: its event
  is recorded.
\<close>

type_synonym 'a io = "event list \<Rightarrow> (pyerror + 'a) \<times> event list"

definition returnM :: "'a \<Rightarrow> 'a io" where
  "returnM x = (\<lambda>tr. (Inr x, tr))"

definition raiseM :: "pyerror \<Rightarrow> 'a io" where
  "raiseM e = (\<lambda>tr. (Inl e, tr))"

definition bindM :: "'a io \<Rightarrow> ('a \<Rightarrow> 'b io) \<Rightarrow> 'b io" where
  "bindM m f = (\<lambda>tr. case m tr of
       (Inl e, tr') \<Rightarrow> (Inl e, tr')
     | (Inr x, tr') \<Rightarrow> f x tr')"

definition thenM :: "unit io \<Rightarrow> 'b io \<Rightarrow> 'b io" where
  "thenM m n = bindM m (\<lambda>_. n)"

definition whenM :: "bool \<Rightarrow> unit io \<Rightarrow> unit io" where
  "whenM b m = (if b then m else returnM ())"

text \<open>\<open>try: body finally: fin\<close>. An exception of \<open>fin\<close> replaces the outcome of the body.\<close>

definition finallyM :: "'a io \<Rightarrow> unit io \<Rightarrow> 'a io" where
  "finallyM body fin = (\<lambda>tr. case body tr of
       (r, tr1) \<Rightarrow> (case fin tr1 of
           (Inl e, tr2) \<Rightarrow> (Inl e, tr2)
         | (Inr _, tr2) \<Rightarrow> (r, tr2)))"

text \<open>\<open>for x in xs: body(x)\<close>: the first exception ends the loop.\<close>

fun forM :: "'a list \<Rightarrow> ('a \<Rightarrow> unit io) \<Rightarrow> unit io" where
  "forM [] body = returnM ()"
| "forM (x # xs) body = thenM (body x) (forM xs body)"

definition perform :: "env \<Rightarrow> event \<Rightarrow> unit io" where
  "perform e ev = (\<lambda>tr.
     (if fails e tr ev then Inl (ExternalFailure ev) else Inr (), tr @ [ev]))"

definition call :: "env \<Rightarrow> event \<Rightarrow> string io" where
  "call e ev = (\<lambda>tr.
     (if fails e tr ev then Inl (ExternalFailure ev) else Inr (returns e tr ev), tr @ [ev]))"

definition os_path_exists :: "env \<Rightarrow> string \<Rightarrow> bool io" where
  "os_path_exists e p = (\<lambda>tr. (Inr (path_exists e tr p), tr))"

text \<open>\<open>config[k]\<close> for an optional key.\<close>

definition subscript :: "string \<Rightarrow> 'a option \<Rightarrow> 'a io" where
  "subscript k v = (case v of None \<Rightarrow> raiseM (KeyError k) | Some x \<Rightarrow> returnM x)"

subsection \<open>String and path helpers of the Python library\<close>

text \<open>\<open>sep.join(xs)\<close>\<close>

fun str_join :: "string \<Rightarrow> string list \<Rightarrow> string" where
  "str_join sep [] = []"
| "str_join sep [x] = x"
| "str_join sep (x # y # ys) = x @ sep @ str_join sep (y # ys)"

text \<open>\<open>os.path.join(a, b)\<close> of posixpath, for two arguments.\<close>

definition os_path_join :: "string \<Rightarrow> string \<Rightarrow> string" where
  "os_path_join a b =
     (if b \<noteq> [] \<and> hd b = CHR ''/'' then b
      else if a = [] \<or> last a = CHR ''/'' then a @ b
      else a @ ''/'' @ b)"

section \<open>Launch commands\<close>

definition getSpikeCmd :: "config \<Rightarrow> bool \<Rightarrow> pyerror + string" where
  "getSpikeCmd config initramfs_arg =
     (if initramfs_arg then Inr (''spike -p4 -m4096 '' @ bin config @ ''-initramfs'')
      else if img config = None then Inr (''spike -p4 -m4096 '' @ bin config)
      else Inl (ValueError ''Spike does not support disk-based configurations''))"

definition getQemuCmd :: "config \<Rightarrow> bool \<Rightarrow> string" where
  \<open>getQemuCmd config initramfs_arg =
     (let exe = (if initramfs_arg then bin config @ ''-initramfs'' else bin config);
          cmd = [''qemu-system-riscv64'',
                 ''-nographic'',
                 ''-smp'', ''4'',
                 ''-machine'', ''virt'',
                 ''-m'', ''4G'',
                 ''-kernel'', exe,
                 ''-object'', ''rng-random,filename=/dev/urandom,id=rng0'',
                 ''-device'', ''virtio-rng-device,rng=rng0'',
                 ''-device'', ''virtio-net-device,netdev=usernet'',
                 ''-netdev'', ''user,id=usernet,hostfwd=tcp::10000-:22''];
          cmd = (case img config of
                   Some i \<Rightarrow> if \<not> initramfs_arg
                     then (cmd @ [''-device'', ''virtio-blk-device,drive=hd0'',
                                  ''-drive'', ''file='' @ i @ '',format=raw,id=hd0''])
                          @ [''-append'', ''"ro root=/dev/vda"'']
                     else cmd
                 | None \<Rightarrow> cmd)
      in str_join '' '' cmd)\<close>


section \<open>Dependency graph: addDep\<close>

text \<open>
  \<open>addDep\<close> asks the host file system three questions, answered here by a record:
  \<open>os.path.isdir\<close>, \<open>os.path.islink\<close> and the triples \<open>(root, dirs, files)\<close>
  that \<open>os.walk\<close> yields for a directory.
\<close>

record filesystem =
  os_path_isdir :: "string \<Rightarrow> bool"
  os_path_islink :: "string \<Rightarrow> bool"
  os_walk :: "string \<Rightarrow> (string \<times> string list \<times> string list) list"

text \<open>
  A doit task dictionary, with its keys \<open>'name'\<close>, \<open>'actions'\<close>, \<open>'targets'\<close>,
  \<open>'file_dep'\<close>, \<open>'task_dep'\<close> and the optional \<open>'uptodate'\<close>. The callables are
  kept as constructors applied to the arguments the dictionary binds them to.
\<close>

datatype action = MakeBin config bool | MakeImage config

datatype check = CheckLinuxUpToDate config

record task =
  task_name :: string
  actions :: "action list"
  targets :: "string list"
  file_dep :: "string list"
  task_dep :: "string list"
  uptodate :: "check list option"

text \<open>\<open>for f in files\<close> of one \<open>os.walk\<close> triple.\<close>

fun addDep_walk_files :: "filesystem \<Rightarrow> string \<Rightarrow> string list \<Rightarrow> string list \<Rightarrow> string list" where
  "addDep_walk_files fs root [] file_deps = file_deps"
| "addDep_walk_files fs root (f # fnames) file_deps =
     (let fdep = os_path_join root f
      in addDep_walk_files fs root fnames
           (if \<not> os_path_islink fs fdep then file_deps @ [fdep] else file_deps))"

text \<open>\<open>for root, dirs, files in os.walk(fSpec.src)\<close>\<close>

fun addDep_walk :: "filesystem \<Rightarrow> (string \<times> string list \<times> string list) list \<Rightarrow> string list \<Rightarrow> string list" where
  "addDep_walk fs [] file_deps = file_deps"
| "addDep_walk fs ((root, dirs, fnames) # triples) file_deps =
     addDep_walk fs triples (addDep_walk_files fs root fnames file_deps)"

text \<open>The body of \<open>for fSpec in config['files']\<close>, and the loop.\<close>

definition addDep_fSpec :: "filesystem \<Rightarrow> FileSpec \<Rightarrow> string list \<Rightarrow> string list" where
  "addDep_fSpec fs fSpec file_deps =
     (if os_path_isdir fs (src fSpec)
      then addDep_walk fs (os_walk fs (src fSpec)) file_deps
      else if \<not> os_path_islink fs (src fSpec) then file_deps @ [src fSpec]
      else file_deps)"

fun addDep_fSpecs :: "filesystem \<Rightarrow> FileSpec list \<Rightarrow> string list \<Rightarrow> string list" where
  "addDep_fSpecs fs [] file_deps = file_deps"
| "addDep_fSpecs fs (fSpec # fSpecs) file_deps =
     addDep_fSpecs fs fSpecs (addDep_fSpec fs fSpec file_deps)"

text \<open>
  \<open>addDep(loader, config)\<close> appends to \<open>loader.workloads\<close>. The result is the list
  after the call; when the call raises, the exception together with the list as it
  was left (the rules appended before the exception stay appended).
\<close>

definition addDep :: "filesystem \<Rightarrow> task list \<Rightarrow> config \<Rightarrow> pyerror \<times> task list + task list" where
  "addDep fs workloads config =
     (let file_deps = [];
          task_deps = [];
          file_deps = (case linux_config config of
                         Some lc \<Rightarrow> file_deps @ [lc] | None \<Rightarrow> file_deps);
          workloads = workloads @
            [\<lparr>task_name = bin config,
              actions = [MakeBin config False],
              targets = [bin config],
              file_dep = file_deps,
              task_dep = task_deps,
              uptodate = Some [CheckLinuxUpToDate config]\<rparr>]
      in
      case (if initramfs config \<noteq> None then
              (case img config of
                 None \<Rightarrow> Inl (KeyError ''img'', workloads)
               | Some i \<Rightarrow>
                   (let file_deps = [i];
                        task_deps = [i];
                        file_deps = (case linux_config config of
                                       Some lc \<Rightarrow> file_deps @ [lc] | None \<Rightarrow> file_deps)
                    in Inr (workloads @
                         [\<lparr>task_name = bin config @ ''-initramfs'',
                           actions = [MakeBin config True],
                           targets = [bin config @ ''-initramfs''],
                           file_dep = file_deps,
                           task_dep = task_deps,
                           uptodate = None\<rparr>])))
            else Inr workloads) of
        Inl err \<Rightarrow> Inl err
      | Inr workloads \<Rightarrow>
          (let file_deps = [];
               task_deps = []
           in case img config of
                None \<Rightarrow> Inr workloads
              | Some i \<Rightarrow>
                  (let (task_deps, file_deps) =
                         (case base_img config of
                            Some b \<Rightarrow> ([b], [b]) | None \<Rightarrow> (task_deps, file_deps));
                       file_deps = (case files config of
                                      Some fSpecs \<Rightarrow> addDep_fSpecs fs fSpecs file_deps
                                    | None \<Rightarrow> file_deps);
                       (file_deps, task_deps) =
                         (case guest_init config of
                            Some g \<Rightarrow> (file_deps @ [g], task_deps @ [bin config])
                          | None \<Rightarrow> (file_deps, task_deps));
                       file_deps = (case runSpec config of
                                      Some spec \<Rightarrow>
                                        (case path spec of
                                           Some p \<Rightarrow> file_deps @ [p] | None \<Rightarrow> file_deps)
                                    | None \<Rightarrow> file_deps);
                       file_deps = (case cfg_file config of
                                      Some c \<Rightarrow> file_deps @ [c] | None \<Rightarrow> file_deps)
                   in Inr (workloads @
                        [\<lparr>task_name = i,
                          actions = [MakeImage config],
                          targets = [i],
                          file_dep = file_deps,
                          task_dep = task_deps,
                          uptodate = None\<rparr>]))))"

section \<open>The command line's initramfs switch: main\<close>


section \<open>Build actions\<close>

subsection \<open>More of the Python library: str, split, normpath\<close>

text \<open>\<open>str(n)\<close> for a non-negative integer.\<close>

function str_of_nat :: "nat \<Rightarrow> string" where
  "str_of_nat n =
     (if n < 10 then [char_of (48 + n)]
      else str_of_nat (n div 10) @ [char_of (48 + n mod 10)])"
  by pat_completeness auto
termination
  by (relation "measure id") auto

text \<open>
  \<open>s.split(c)\<close> for a one-character separator, scanning left to right with the
  piece read so far; the result is never empty.
\<close>

fun split_from :: "char \<Rightarrow> string \<Rightarrow> string \<Rightarrow> string list" where
  "split_from c piece [] = [piece]"
| "split_from c piece (x # xs) =
     (if x = c then piece # split_from c [] xs else split_from c (piece @ [x]) xs)"

definition split_sep :: "char \<Rightarrow> string \<Rightarrow> string list" where
  "split_sep c s = split_from c [] s"

text \<open>
  The component loop of \<open>posixpath.normpath\<close>: empty and \<open>.\<close> components are
  dropped, \<open>..\<close> removes the component before it, except at the start of a
  relative path or after another \<open>..\<close> (where it is kept) and at the root (where it
  is dropped).
\<close>

fun normpath_comps :: "nat \<Rightarrow> string list \<Rightarrow> string list \<Rightarrow> string list" where
  "normpath_comps initial_slashes [] new_comps = new_comps"
| "normpath_comps initial_slashes (cmp # comps) new_comps =
     (if cmp = [] \<or> cmp = ''.'' then normpath_comps initial_slashes comps new_comps
      else if cmp \<noteq> ''..'' \<or> (initial_slashes = 0 \<and> new_comps = [])
               \<or> (new_comps \<noteq> [] \<and> last new_comps = ''..'')
        then normpath_comps initial_slashes comps (new_comps @ [cmp])
      else if new_comps \<noteq> [] then normpath_comps initial_slashes comps (butlast new_comps)
      else normpath_comps initial_slashes comps new_comps)"

definition os_path_normpath :: "string \<Rightarrow> string" where
  "os_path_normpath p =
     (if p = [] then ''.''
      else
        (let initial_slashes =
               (if hd p = CHR ''/''
                then (if take 2 p = ''//'' \<and> take 3 p \<noteq> ''///'' then 2 else 1)
                else (0::nat));
             comps = normpath_comps initial_slashes (split_sep (CHR ''/'') p) [];
             q = str_join ''/'' comps;
             q = (if initial_slashes \<noteq> 0 then replicate initial_slashes (CHR ''/'') @ q else q)
         in if q = [] then ''.'' else q))"

subsection \<open>copyImgFiles and applyOverlay\<close>

text \<open>
  The body of the loop over the file specifications. The copy target of an inbound
  copy is \<open>os.path.normpath(mnt + f.dst)\<close>: string concatenation, not
  \<open>os.path.join\<close>.
\<close>

definition copyImgFiles_body :: "env \<Rightarrow> string \<Rightarrow> FileSpec \<Rightarrow> unit io" where
  "copyImgFiles_body e direction f =
     (if direction = ''in'' then
        perform e (Run (Shell (''sudo rsync -a --chown=root:root '' @ src f @ '' ''
                               @ os_path_normpath (mnt e @ dst f))) None)
      else if direction = ''out'' then
        (let uid = getuid e
         in perform e (Run (Shell (''sudo rsync -a --chown='' @ str_of_nat uid @ '':''
                                   @ str_of_nat uid @ '' ''
                                   @ os_path_normpath (mnt e @ src f) @ '' '' @ dst f)) None))
      else raiseM (ValueError (''direction option must be either 'in' or 'out'' @ [CHR 0x27])))"

definition copyImgFiles :: "env \<Rightarrow> string \<Rightarrow> FileSpec list \<Rightarrow> string \<Rightarrow> unit io" where
  "copyImgFiles e imgfile fSpecs direction =
     thenM (bindM (os_path_exists e (mnt e)) (\<lambda>ex.
              whenM (\<not> ex) (perform e (Run (Argv [''mkdir'', mnt e]) None))))
    (thenM (perform e (Run (Argv [''sudo'', ''mount'', ''-o'', ''loop'', imgfile, mnt e]) None))
       (finallyM
          (forM fSpecs (copyImgFiles_body e direction))
          (perform e (Run (Argv [''sudo'', ''umount'', mnt e]) None))))"

definition applyOverlay :: "env \<Rightarrow> string \<Rightarrow> string \<Rightarrow> unit io" where
  "applyOverlay e imgfile overlay =
     copyImgFiles e imgfile [\<lparr>src = os_path_join overlay ''*'', dst = ''/''\<rparr>] ''in''"

subsection \<open>makeBin\<close>

text \<open>
  The key \<open>linux-src\<close> is subscripted several times; the first subscript decides
  whether any of them raises, so the embedding reads it once.
\<close>

definition makeBin :: "env \<Rightarrow> config \<Rightarrow> bool \<Rightarrow> unit io" where
  "makeBin e config initramfs_arg =
     (case linux_config config of
        None \<Rightarrow> returnM ()
      | Some lc \<Rightarrow>
          bindM (subscript ''linux-src'' (linux_src config)) (\<lambda>ls.
            (let linuxCfg = os_path_join ls ''.config''
             in thenM (perform e (Copy lc linuxCfg))
               (thenM
                  (if initramfs_arg then
                     bindM (call e (NamedTemporaryFile ''.cpio'')) (\<lambda>tmpCpio.
                       finallyM
                         (bindM (subscript ''img'' (img config)) (\<lambda>i.
                            thenM (perform e (ToCpio config i tmpCpio))
                           (thenM (perform e (ConvertInitramfsConfig linuxCfg tmpCpio))
                           (thenM (perform e (Run (Argv [''make'', ''ARCH=riscv'', ''olddefconfig''])
                                                  (Some ls)))
                                  (perform e (Run (Argv [''make'', ''ARCH=riscv'', ''vmlinux'', jlevel e])
                                                  (Some ls)))))))
                         (perform e (CloseTemporaryFile tmpCpio)))
                   else perform e (Run (Argv [''make'', ''ARCH=riscv'', ''vmlinux'', jlevel e])
                                       (Some ls)))
               (thenM (bindM (os_path_exists e ''riscv-pk/build'') (\<lambda>ex.
                         whenM ex (perform e (Rmtree ''riscv-pk/build''))))
               (thenM (perform e (Mkdir ''riscv-pk/build''))
               (thenM (perform e (Run (Argv [''../configure'', ''--host=riscv64-unknown-elf'',
                                             ''--with-payload='' @ os_path_join ls ''vmlinux''])
                                      (Some ''riscv-pk/build'')))
               (thenM (perform e (Run (Argv [''make'', jlevel e]) (Some ''riscv-pk/build'')))
                  (if initramfs_arg
                   then perform e (Copy ''riscv-pk/build/bbl'' (bin config @ ''-initramfs''))
                   else perform e (Copy ''riscv-pk/build/bbl'' (bin config)))))))))))"

subsection \<open>makeImage\<close>

text \<open>
  Logging and printing are output only and leave no event; the string concatenation
  that builds the log message of a run script raises \<open>TypeError\<close> when the run
  specification has neither a command nor a path.
\<close>

definition makeImage :: "env \<Rightarrow> config \<Rightarrow> unit io" where
  "makeImage e config =
     thenM (case base_img config of
              Some b \<Rightarrow> bindM (subscript ''img'' (img config)) (\<lambda>i. perform e (Copy b i))
            | None \<Rightarrow> returnM ())
    (thenM (case files config of
              Some fSpecs \<Rightarrow>
                bindM (subscript ''img'' (img config)) (\<lambda>i. copyImgFiles e i fSpecs ''in'')
            | None \<Rightarrow> returnM ())
    (thenM (case guest_init config of
              Some g \<Rightarrow>
                bindM (os_path_exists e g) (\<lambda>ex.
                  if \<not> ex then raiseM (ValueError (''Init script '' @ g @ '' not found.''))
                  else
                    bindM (subscript ''builder'' (builder config)) (\<lambda>bld.
                    bindM (call e (GenerateBootScriptOverlay bld (Some g))) (\<lambda>init_overlay.
                    thenM (bindM (subscript ''img'' (img config)) (\<lambda>i.
                             applyOverlay e i init_overlay))
                   (thenM (perform e (CheckCall (getQemuCmd config False)))
                   (bindM (call e (GenerateBootScriptOverlay bld None)) (\<lambda>run_overlay.
                    bindM (subscript ''img'' (img config)) (\<lambda>i.
                      applyOverlay e i run_overlay)))))))
            | None \<Rightarrow> returnM ())
       (case runSpec config of
          Some spec \<Rightarrow>
            bindM (case command spec of
                     Some c \<Rightarrow> call e (GenRunScript c)
                   | None \<Rightarrow> (case path spec of
                                None \<Rightarrow> raiseM TypeError
                              | Some p \<Rightarrow> returnM p)) (\<lambda>scriptPath.
            bindM (os_path_exists e scriptPath) (\<lambda>ex.
              if \<not> ex then raiseM (ValueError (''Run script '' @ scriptPath @ '' not found.''))
              else
                bindM (subscript ''builder'' (builder config)) (\<lambda>bld.
                bindM (call e (GenerateBootScriptOverlay bld (Some scriptPath))) (\<lambda>run_overlay.
                bindM (subscript ''img'' (img config)) (\<lambda>i.
                  applyOverlay e i run_overlay)))))
        | None \<Rightarrow> returnM ())))"

section \<open>Reference definitions and example inputs\<close>

text \<open>
  What one \<open>files\<close> entry contributes to the file dependencies, written as a
  comprehension: for a directory, every file name that \<open>os.walk\<close> lists, joined to
  its directory, unless the joined path is a symbolic link; for anything else, the
  source itself unless it is a symbolic link.
\<close>

definition expanded_files :: "filesystem \<Rightarrow> FileSpec \<Rightarrow> string list" where
  "expanded_files fs fSpec =
     (if os_path_isdir fs (src fSpec)
      then concat (map (\<lambda>(root, dirs, fnames).
                          filter (\<lambda>p. \<not> os_path_islink fs p) (map (os_path_join root) fnames))
                       (os_walk fs (src fSpec)))
      else if os_path_islink fs (src fSpec) then [] else [src fSpec])"

definition opt_list :: "'a option \<Rightarrow> 'a list" where
  "opt_list v = (case v of None \<Rightarrow> [] | Some x \<Rightarrow> [x])"

text \<open>
  The image rule's dependencies as the specification lists them: the expanded
  \<open>files\<close>, the guest-init script and the run script path as file dependencies, the
  base image as the only task dependency.
\<close>

definition spec_image_file_deps :: "filesystem \<Rightarrow> config \<Rightarrow> string list" where
  "spec_image_file_deps fs config =
     concat (map (expanded_files fs) (concat (opt_list (files config))))
     @ opt_list (guest_init config)
     @ (case runSpec config of None \<Rightarrow> [] | Some spec \<Rightarrow> opt_list (path spec))"

definition spec_image_task_deps :: "config \<Rightarrow> string list" where
  "spec_image_task_deps config = opt_list (base_img config)"

text \<open>The plain binary rule and the initramfs rule of a configuration.\<close>

definition binary_rule :: "config \<Rightarrow> task" where
  "binary_rule config =
     \<lparr>task_name = bin config,
      actions = [MakeBin config False],
      targets = [bin config],
      file_dep = opt_list (linux_config config),
      task_dep = [],
      uptodate = Some [CheckLinuxUpToDate config]\<rparr>"

definition initramfs_rule :: "config \<Rightarrow> string \<Rightarrow> task" where
  "initramfs_rule config i =
     \<lparr>task_name = bin config @ ''-initramfs'',
      actions = [MakeBin config True],
      targets = [bin config @ ''-initramfs''],
      file_dep = i # opt_list (linux_config config),
      task_dep = [i],
      uptodate = None\<rparr>"

text \<open>The three external commands of a mount transaction.\<close>

definition mkdir_ev :: "env \<Rightarrow> event" where
  "mkdir_ev e = Run (Argv [''mkdir'', mnt e]) None"

definition mount_ev :: "env \<Rightarrow> string \<Rightarrow> event" where
  "mount_ev e imgfile = Run (Argv [''sudo'', ''mount'', ''-o'', ''loop'', imgfile, mnt e]) None"

definition umount_ev :: "env \<Rightarrow> event" where
  "umount_ev e = Run (Argv [''sudo'', ''umount'', mnt e]) None"

text \<open>The inbound copy command that applies an overlay directory to the mounted image.\<close>

definition overlay_rsync_ev :: "env \<Rightarrow> string \<Rightarrow> event" where
  "overlay_rsync_ev e overlay =
     Run (Shell (''sudo rsync -a --chown=root:root '' @ os_path_join overlay ''*'' @ '' ''
                 @ os_path_normpath (mnt e @ ''/''))) None"

text \<open>
  From the events \<open>tr\<close>, the boot-script overlay for \<open>script\<close> is generated by the
  builder and applied to the image: the generation, the creation of the mount point
  if it was missing, the mount, the copy of the overlay's content to the root of the
  mounted image, and the unmount; \<open>tr'\<close> are the events after that.
\<close>

definition overlay_applied ::
    "env \<Rightarrow> string \<Rightarrow> string option \<Rightarrow> string \<Rightarrow> event list \<Rightarrow> event list \<Rightarrow> bool" where
  "overlay_applied e bld script imgfile tr tr' =
     (let gen = GenerateBootScriptOverlay bld script;
          evs = [mount_ev e imgfile, overlay_rsync_ev e (returns e tr gen), umount_ev e]
      in tr' = tr @ [gen] @ evs \<or> tr' = tr @ [gen] @ [mkdir_ev e] @ evs)"

text \<open>Example inputs.\<close>

definition example_config :: config where
  "example_config =
     \<lparr>name = ''test'', bin = ''test-bin'', img = None, initramfs = None,
      linux_config = None, linux_src = None, base_img = None, files = None,
      guest_init = None, runSpec = None, cfg_file = None, builder = None\<rparr>"

definition example_image_config :: config where
  "example_image_config =
     example_config\<lparr>img := Some ''test.img'', base_img := Some ''base.img'',
       files := Some [\<lparr>src = ''/host/overlay'', dst = ''/''\<rparr>],
       guest_init := Some ''/host/init.sh'', cfg_file := Some ''/host/test.json'',
       builder := Some ''br''\<rparr>"

definition example_init_config :: config where
  "example_init_config =
     example_config\<lparr>img := Some ''test.img'', guest_init := Some ''/host/init.sh'',
       builder := Some ''br''\<rparr>"

definition example_run_config :: config where
  "example_run_config =
     example_init_config\<lparr>runSpec := Some \<lparr>command = None, path = Some ''/host/run.sh''\<rparr>\<rparr>"





definition example_fileSpec :: FileSpec where
  "example_fileSpec = \<lparr>src = ''/host/etc/motd'', dst = ''/etc/motd''\<rparr>"

text \<open>A host on which every shell command (the copies) fails, and nothing else does.\<close>

definition example_env_copy_fails :: env where
  "example_env_copy_fails =
     \<lparr>mnt = ''/fs/disk-mount'', jlevel = ''-j16'', getuid = 1000,
      path_exists = (\<lambda>tr p. True),
      fails = (\<lambda>tr ev. case ev of Run (Shell c) cwd \<Rightarrow> True | _ \<Rightarrow> False),
      returns = (\<lambda>tr ev. [])\<rparr>"

definition example_fs :: filesystem where
  "example_fs =
     \<lparr>os_path_isdir = (\<lambda>p. p = ''/host/overlay''),
      os_path_islink = (\<lambda>p. p = ''/host/overlay/etc/link'' \<or> p = ''/host/link''),
      os_walk = (\<lambda>p. if p = ''/host/overlay''
                      then [(''/host/overlay'', [''etc''], [''README'']),
                            (''/host/overlay/etc'', [], [''motd'', ''link''])]
                      else [])\<rparr>"

definition example_env :: env where
  "example_env =
     \<lparr>mnt = ''/fs/disk-mount'', jlevel = ''-j16'', getuid = 1000,
      path_exists = (\<lambda>tr p. True),
      fails = (\<lambda>tr ev. False),
      returns = (\<lambda>tr ev. case ev of
                   GenerateBootScriptOverlay bld None \<Rightarrow> ''/tmp/overlay-clear''
                 | GenerateBootScriptOverlay bld (Some s) \<Rightarrow> ''/tmp/overlay'' @ s
                 | GenRunScript c \<Rightarrow> ''/tmp/run.sh''
                 | _ \<Rightarrow> ''/tmp/initramfs.cpio'')\<rparr>"

section \<open>Properties\<close>

subsection \<open>Launch commands\<close>

text \<open>
  C10. \<open>getSpikeCmd\<close> with \<open>initramfs=False\<close> raises a ValueError exactly when the
  configuration has an \<open>img\<close> key, and otherwise returns the spike command on
  \<open>bin\<close>; with \<open>initramfs=True\<close> it always returns the spike command on
  \<open>bin + "-initramfs"\<close>, whether or not \<open>img\<close> is present.
\<close>

theorem getSpikeCmd_cases:
  "((\<exists>msg. getSpikeCmd config False = Inl (ValueError msg)) \<longleftrightarrow> img config \<noteq> None)
   \<and> (img config = None \<longrightarrow>
        getSpikeCmd config False = Inr (''spike -p4 -m4096 '' @ bin config))
   \<and> getSpikeCmd config True = Inr (''spike -p4 -m4096 '' @ bin config @ ''-initramfs'')"
  by (simp add: getSpikeCmd_def)

theorem getSpikeCmd_cases_witness:
  "img example_config = None
   \<and> getSpikeCmd example_config False = Inr ''spike -p4 -m4096 test-bin''
   \<and> getSpikeCmd (example_config\<lparr>img := Some ''test.img''\<rparr>) False
       = Inl (ValueError ''Spike does not support disk-based configurations'')
   \<and> getSpikeCmd (example_config\<lparr>img := Some ''test.img''\<rparr>) True
       = Inr ''spike -p4 -m4096 test-bin-initramfs''"
  using getSpikeCmd_cases [of example_config]
        getSpikeCmd_cases [of "example_config\<lparr>img := Some ''test.img''\<rparr>"]
  by (simp add: example_config_def getSpikeCmd_def)

subsection \<open>File dependencies of a files entry\<close>

text \<open>The loops of \<open>addDep\<close> append, in order, what the comprehension lists.\<close>

lemma addDep_walk_files_eq:
  "addDep_walk_files fs root fnames file_deps =
     file_deps @ filter (\<lambda>p. \<not> os_path_islink fs p) (map (os_path_join root) fnames)"
  by (induction fnames arbitrary: file_deps) (simp_all add: Let_def)

lemma addDep_walk_eq:
  "addDep_walk fs triples file_deps =
     file_deps @ concat (map (\<lambda>(root, dirs, fnames).
        filter (\<lambda>p. \<not> os_path_islink fs p) (map (os_path_join root) fnames)) triples)"
  by (induction triples arbitrary: file_deps) (auto simp: addDep_walk_files_eq)

lemma addDep_fSpec_eq:
  "addDep_fSpec fs fSpec file_deps = file_deps @ expanded_files fs fSpec"
  by (simp add: addDep_fSpec_def expanded_files_def addDep_walk_eq)

lemma addDep_fSpecs_eq:
  "addDep_fSpecs fs fSpecs file_deps = file_deps @ concat (map (expanded_files fs) fSpecs)"
  by (induction fSpecs arbitrary: file_deps) (simp_all add: addDep_fSpec_eq)



subsection \<open>Rules emitted by addDep\<close>

text \<open>
  C9. For a configuration with the key \<open>initramfs\<close> and without the key \<open>img\<close>,
  \<open>addDep\<close> raises \<open>KeyError('img')\<close> while building the dependencies of the
  initramfs rule: the plain binary rule has been appended, the initramfs rule is
  not.
\<close>

theorem addDep_initramfs_without_img:
  "initramfs config \<noteq> None \<Longrightarrow> img config = None \<Longrightarrow>
   addDep fs workloads config =
     Inl (KeyError ''img'',
          workloads @
            [\<lparr>task_name = bin config,
              actions = [MakeBin config False],
              targets = [bin config],
              file_dep = opt_list (linux_config config),
              task_dep = [],
              uptodate = Some [CheckLinuxUpToDate config]\<rparr>])"
  by (simp add: addDep_def opt_list_def split: option.splits)

theorem addDep_initramfs_without_img_witness:
  "initramfs (example_config\<lparr>initramfs := Some True\<rparr>) \<noteq> None
   \<and> img (example_config\<lparr>initramfs := Some True\<rparr>) = None
   \<and> addDep example_fs [] (example_config\<lparr>initramfs := Some True\<rparr>) =
       Inl (KeyError ''img'',
            [\<lparr>task_name = ''test-bin'',
              actions = [MakeBin (example_config\<lparr>initramfs := Some True\<rparr>) False],
              targets = [''test-bin''],
              file_dep = [],
              task_dep = [],
              uptodate = Some [CheckLinuxUpToDate (example_config\<lparr>initramfs := Some True\<rparr>)]\<rparr>])"
  using addDep_initramfs_without_img [of "example_config\<lparr>initramfs := Some True\<rparr>" example_fs "[]"]
  by (simp add: example_config_def opt_list_def)

text \<open>With an \<open>img\<close> key \<open>addDep\<close> never raises; its three rules in full.\<close>

lemma addDep_with_img:
  "img config = Some i \<Longrightarrow>
   addDep fs workloads config =
     Inr (workloads @ [binary_rule config]
          @ (if initramfs config \<noteq> None then [initramfs_rule config i] else [])
          @ [\<lparr>task_name = i,
               actions = [MakeImage config],
               targets = [i],
               file_dep = opt_list (base_img config) @ spec_image_file_deps fs config
                          @ opt_list (cfg_file config),
               task_dep = spec_image_task_deps config
                          @ (if guest_init config = None then [] else [bin config]),
               uptodate = None\<rparr>])"
  by (simp add: addDep_def Let_def binary_rule_def initramfs_rule_def opt_list_def
        spec_image_file_deps_def spec_image_task_deps_def
        addDep_fSpecs_eq split: option.splits)

text \<open>
  C3, as the specification states it: the image rule's file dependencies are exactly
  the expanded \<open>files\<close>, the guest-init script and the run script path, and its
  task dependencies exactly the base image. The code adds more: for the example
  configuration the rule also depends on the files \<open>base.img\<close> and the
  configuration file, and on the task \<open>test-bin\<close>.
\<close>

theorem image_rule_deps_counterexample:
  "img example_image_config = Some ''test.img''
   \<and> addDep example_fs [] example_image_config =
     Inr [binary_rule example_image_config,
          \<lparr>task_name = ''test.img'',
           actions = [MakeImage example_image_config],
           targets = [''test.img''],
           file_dep = [''base.img'', ''/host/overlay/README'', ''/host/overlay/etc/motd'',
                       ''/host/init.sh'', ''/host/test.json''],
           task_dep = [''base.img'', ''test-bin''],
           uptodate = None\<rparr>]
   \<and> spec_image_file_deps example_fs example_image_config
       = [''/host/overlay/README'', ''/host/overlay/etc/motd'', ''/host/init.sh'']
   \<and> spec_image_task_deps example_image_config = [''base.img'']
   \<and> ''base.img'' \<notin> set (spec_image_file_deps example_fs example_image_config)
   \<and> ''/host/test.json'' \<notin> set (spec_image_file_deps example_fs example_image_config)
   \<and> ''test-bin'' \<notin> set (spec_image_task_deps example_image_config)"
  by (simp add: addDep_with_img example_image_config_def example_config_def example_fs_def
        opt_list_def spec_image_file_deps_def spec_image_task_deps_def expanded_files_def
        os_path_join_def)

text \<open>
  C3, amended. For a configuration with an \<open>img\<close> key, \<open>addDep\<close> returns
  normally and the last rule it appends is the image rule. Its file dependencies are,
  in order: the base image when present, the expanded \<open>files\<close> (symbolic links
  excluded), the guest-init script when present, the run script path when the run
  specification has one, and the configuration file when present. Its task
  dependencies are the base image when present, followed by \<open>bin\<close> when guest-init
  is present. The rules before it are the binary rule and, with the \<open>initramfs\<close>
  key, the initramfs rule.
\<close>

theorem addDep_image_rule:
  "img config = Some i \<Longrightarrow>
   \<exists>rules. addDep fs workloads config =
     Inr (workloads @ rules @
       [\<lparr>task_name = i,
         actions = [MakeImage config],
         targets = [i],
         file_dep = opt_list (base_img config) @ spec_image_file_deps fs config
                    @ opt_list (cfg_file config),
         task_dep = spec_image_task_deps config
                    @ (if guest_init config = None then [] else [bin config]),
         uptodate = None\<rparr>])
     \<and> rules = binary_rule config
               # (if initramfs config \<noteq> None then [initramfs_rule config i] else [])"
  by (simp add: addDep_with_img)

theorem addDep_image_rule_witness:
  "img example_image_config = Some ''test.img''
   \<and> addDep example_fs [] example_image_config =
     Inr [binary_rule example_image_config,
        \<lparr>task_name = ''test.img'',
         actions = [MakeImage example_image_config],
         targets = [''test.img''],
         file_dep = [''base.img'', ''/host/overlay/README'', ''/host/overlay/etc/motd'',
                     ''/host/init.sh'', ''/host/test.json''],
         task_dep = [''base.img'', ''test-bin''],
         uptodate = None\<rparr>]"
  using addDep_image_rule [of example_image_config "''test.img''" example_fs "[]"]
  by (simp add: example_image_config_def example_config_def example_fs_def opt_list_def
        spec_image_file_deps_def spec_image_task_deps_def expanded_files_def os_path_join_def)

subsection \<open>The initramfs switch and the rules of jobs\<close>




subsection \<open>makeBin\<close>

text \<open>
  C7. For a configuration without the key \<open>linux-config\<close>, \<open>makeBin\<close> returns
  normally and does nothing: no event is added, whatever the \<open>initramfs\<close> argument
  and whatever the host.
\<close>

theorem makeBin_without_linux_config:
  "linux_config config = None \<Longrightarrow> makeBin e config initramfs_arg tr = (Inr (), tr)"
  by (simp add: makeBin_def returnM_def)

theorem makeBin_without_linux_config_witness:
  "linux_config example_config = None
   \<and> makeBin example_env example_config True [] = (Inr (), [])
   \<and> makeBin example_env example_config False [] = (Inr (), [])"
  using makeBin_without_linux_config [of example_config example_env True "[]"]
        makeBin_without_linux_config [of example_config example_env False "[]"]
  by (simp add: example_config_def)

subsection \<open>The mount transaction\<close>

text \<open>Actions only ever extend the list of events.\<close>

lemma forM_extends:
  assumes "\<forall>x t. \<exists>evs. snd (body x t) = t @ evs"
  shows "\<exists>evs. snd (forM xs body tr) = tr @ evs"
proof (induction xs arbitrary: tr)
  case Nil
  show ?case by (simp add: returnM_def)
next
  case (Cons x xs)
  from assms obtain evs1 where t1: "snd (body x tr) = tr @ evs1" by blast
  show ?case
  proof (cases "fst (body x tr)")
    case (Inl err)
    then have "snd (forM (x # xs) body tr) = snd (body x tr)"
      by (cases "body x tr") (simp add: thenM_def bindM_def)
    with t1 show ?thesis by simp
  next
    case (Inr u)
    then have "snd (forM (x # xs) body tr) = snd (forM xs body (tr @ evs1))"
      using t1 by (cases "body x tr") (simp add: thenM_def bindM_def)
    moreover from Cons.IH [of "tr @ evs1"]
    obtain evs2 where "snd (forM xs body (tr @ evs1)) = (tr @ evs1) @ evs2" by blast
    ultimately show ?thesis by simp
  qed
qed

lemma copyImgFiles_body_extends:
  "\<exists>evs. snd (copyImgFiles_body e direction f t) = t @ evs"
  by (simp add: copyImgFiles_body_def perform_def raiseM_def Let_def)

lemma copyImgFiles_loop_extends:
  "\<exists>evs. snd (forM fSpecs (copyImgFiles_body e direction) tr) = tr @ evs"
  by (rule forM_extends) (simp add: copyImgFiles_body_extends)

text \<open>
  The exit paths of \<open>copyImgFiles\<close>: the creation of the mount point fails; the
  mount fails; or the image is mounted, the loop over the files runs, and the unmount
  is issued whatever the loop's outcome.
\<close>

lemma copyImgFiles_unfold:
  "copyImgFiles e imgfile fSpecs direction tr =
     (let tr0 = (if path_exists e tr (mnt e) then tr else tr @ [mkdir_ev e])
      in if \<not> path_exists e tr (mnt e) \<and> fails e tr (mkdir_ev e)
           then (Inl (ExternalFailure (mkdir_ev e)), tr0)
         else if fails e tr0 (mount_ev e imgfile)
           then (Inl (ExternalFailure (mount_ev e imgfile)), tr0 @ [mount_ev e imgfile])
         else (case forM fSpecs (copyImgFiles_body e direction) (tr0 @ [mount_ev e imgfile]) of
                 (r, tr1) \<Rightarrow>
                   (if fails e tr1 (umount_ev e) then Inl (ExternalFailure (umount_ev e)) else r,
                    tr1 @ [umount_ev e])))"
  by (simp add: copyImgFiles_def thenM_def bindM_def whenM_def finallyM_def os_path_exists_def
        perform_def returnM_def mkdir_ev_def mount_ev_def umount_ev_def Let_def
        split: prod.splits sum.splits)

text \<open>
  C2. Once the image is mounted (the mount point existed or was created, and the
  mount command succeeded), whatever the copy loop does, the unmount command is the
  last event of the call: when a copy raises, the events are the mount, the copies
  up to the failing one, then the unmount, and the caller receives the copy's
  exception (or the unmount's own exception, should the unmount fail too); on normal
  completion the unmount follows the last copy in the same way.
\<close>

theorem copyImgFiles_unmounts:
  assumes "tr0 = (if path_exists e tr (mnt e) then tr else tr @ [mkdir_ev e])"
    and "path_exists e tr (mnt e) \<or> \<not> fails e tr (mkdir_ev e)"
    and "\<not> fails e tr0 (mount_ev e imgfile)"
    and "forM fSpecs (copyImgFiles_body e direction) (tr0 @ [mount_ev e imgfile]) = (r, tr1)"
  shows "copyImgFiles e imgfile fSpecs direction tr =
           (if fails e tr1 (umount_ev e) then Inl (ExternalFailure (umount_ev e)) else r,
            tr1 @ [umount_ev e])
         \<and> (\<exists>copies. tr1 = tr0 @ [mount_ev e imgfile] @ copies)"
proof
  show "copyImgFiles e imgfile fSpecs direction tr =
           (if fails e tr1 (umount_ev e) then Inl (ExternalFailure (umount_ev e)) else r,
            tr1 @ [umount_ev e])"
  proof (cases "path_exists e tr (mnt e)")
    case True
    with assms(1) have "tr0 = tr" by simp
    with True assms(3,4) show ?thesis by (simp add: copyImgFiles_unfold)
  next
    case False
    with assms(1) have "tr0 = tr @ [mkdir_ev e]" by simp
    with False assms(2,3,4) show ?thesis by (simp add: copyImgFiles_unfold)
  qed
  from copyImgFiles_loop_extends [of fSpecs e direction "tr0 @ [mount_ev e imgfile]"] assms(4)
  show "\<exists>copies. tr1 = tr0 @ [mount_ev e imgfile] @ copies"
    by simp
qed

theorem copyImgFiles_unmounts_witness:
  "copyImgFiles example_env_copy_fails ''test.img'' [example_fileSpec] ''in'' [] =
     (Inl (ExternalFailure
             (Run (Shell ''sudo rsync -a --chown=root:root /host/etc/motd /fs/disk-mount/etc/motd'')
                  None)),
      [mount_ev example_env_copy_fails ''test.img'',
       Run (Shell ''sudo rsync -a --chown=root:root /host/etc/motd /fs/disk-mount/etc/motd'') None,
       umount_ev example_env_copy_fails])"
proof -
  let ?e = example_env_copy_fails
  let ?rsync = "Run (Shell ''sudo rsync -a --chown=root:root /host/etc/motd /fs/disk-mount/etc/motd'')
                  None"
  have norm: "os_path_normpath ''/fs/disk-mount/etc/motd'' = ''/fs/disk-mount/etc/motd''"
    by (simp add: os_path_normpath_def split_sep_def)
  have 1: "[] = (if path_exists ?e [] (mnt ?e) then [] else [] @ [mkdir_ev ?e])"
    by (simp add: example_env_copy_fails_def)
  have 2: "path_exists ?e [] (mnt ?e) \<or> \<not> fails ?e [] (mkdir_ev ?e)"
    by (simp add: example_env_copy_fails_def)
  have 3: "\<not> fails ?e [] (mount_ev ?e ''test.img'')"
    by (simp add: example_env_copy_fails_def mount_ev_def)
  have 4: "forM [example_fileSpec] (copyImgFiles_body ?e ''in'') ([] @ [mount_ev ?e ''test.img''])
            = (Inl (ExternalFailure ?rsync), [mount_ev ?e ''test.img'', ?rsync])"
    by (simp add: thenM_def bindM_def copyImgFiles_body_def perform_def example_fileSpec_def
          example_env_copy_fails_def norm)
  have 5: "\<not> fails ?e [mount_ev ?e ''test.img'', ?rsync] (umount_ev ?e)"
    by (simp add: example_env_copy_fails_def umount_ev_def)
  from copyImgFiles_unmounts [OF 1 2 3 4] 5 show ?thesis by simp
qed

text \<open>With a direction other than \<open>'in'\<close> and \<open>'out'\<close> the loop raises at the first file.\<close>

lemma forM_bad_direction:
  "direction \<noteq> ''in'' \<Longrightarrow> direction \<noteq> ''out'' \<Longrightarrow>
   forM fSpecs (copyImgFiles_body e direction) tr =
     (if fSpecs = [] then Inr ()
      else Inl (ValueError (''direction option must be either 'in' or 'out'' @ [CHR 0x27])), tr)"
  by (cases fSpecs) (simp_all add: copyImgFiles_body_def returnM_def raiseM_def thenM_def bindM_def)

text \<open>
  C8, as the specification states it: every call with an unrecognised direction fails
  with a ValueError. With an empty file list the direction is never looked at: the
  call mounts, unmounts and returns normally.
\<close>

theorem copyImgFiles_bad_direction_counterexample:
  "''sideways'' \<noteq> ''in'' \<and> ''sideways'' \<noteq> ''out''
   \<and> copyImgFiles example_env ''test.img'' [] ''sideways'' [] =
       (Inr (), [mount_ev example_env ''test.img'', umount_ev example_env])"
  by (simp add: copyImgFiles_unfold returnM_def example_env_def)

text \<open>
  C8, amended. A call with a direction other than \<open>'in'\<close> and \<open>'out'\<close> runs no copy
  command on any path: its events are at most the creation of the mount point, the
  mount and the unmount. If creating the mount point or mounting fails, that failure
  is raised. Otherwise the image is mounted and unmounted, and the call raises the
  ValueError when the file list is not empty and returns normally when it is empty,
  unless the unmount fails, in which case the unmount's failure is raised.
\<close>

theorem copyImgFiles_bad_direction:
  assumes "direction \<noteq> ''in''" and "direction \<noteq> ''out''"
  shows "copyImgFiles e imgfile fSpecs direction tr =
     (let tr0 = (if path_exists e tr (mnt e) then tr else tr @ [mkdir_ev e])
      in if \<not> path_exists e tr (mnt e) \<and> fails e tr (mkdir_ev e)
           then (Inl (ExternalFailure (mkdir_ev e)), tr0)
         else if fails e tr0 (mount_ev e imgfile)
           then (Inl (ExternalFailure (mount_ev e imgfile)), tr0 @ [mount_ev e imgfile])
         else (if fails e (tr0 @ [mount_ev e imgfile]) (umount_ev e)
                 then Inl (ExternalFailure (umount_ev e))
               else if fSpecs = [] then Inr ()
               else Inl (ValueError (''direction option must be either 'in' or 'out'' @ [CHR 0x27])),
               tr0 @ [mount_ev e imgfile, umount_ev e]))"
  by (simp add: copyImgFiles_unfold forM_bad_direction [OF assms] Let_def)

theorem copyImgFiles_bad_direction_witness:
  "''sideways'' \<noteq> ''in'' \<and> ''sideways'' \<noteq> ''out''
   \<and> copyImgFiles example_env ''test.img'' [example_fileSpec] ''sideways'' [] =
       (Inl (ValueError (''direction option must be either 'in' or 'out'' @ [CHR 0x27])),
        [mount_ev example_env ''test.img'', umount_ev example_env])"
proof -
  have 1: "''sideways'' \<noteq> ''in''" and 2: "''sideways'' \<noteq> ''out''" by simp_all
  from copyImgFiles_bad_direction [OF 1 2, of example_env "''test.img''" "[example_fileSpec]" "[]"]
  show ?thesis by (simp add: example_env_def)
qed

subsection \<open>The target of an inbound copy\<close>

text \<open>
  C4, as the specification states it: a destination that begins with a path separator
  replaces the mount point, so that the copy target is the destination itself. That
  is what \<open>os.path.join\<close> would compute; the code concatenates the strings
  instead, and the file of the example is copied to
  \<open>/fs/disk-mount/etc/motd\<close>, not to \<open>/etc/motd\<close>.
\<close>

theorem inbound_copy_target_counterexample:
  "hd (dst example_fileSpec) = CHR ''/''
   \<and> copyImgFiles_body example_env ''in'' example_fileSpec [] =
       (Inr (), [Run (Shell ''sudo rsync -a --chown=root:root /host/etc/motd /fs/disk-mount/etc/motd'')
                     None])
   \<and> os_path_normpath (mnt example_env @ dst example_fileSpec) = ''/fs/disk-mount/etc/motd''
   \<and> os_path_normpath (mnt example_env @ dst example_fileSpec) \<noteq> dst example_fileSpec
   \<and> os_path_join (mnt example_env) (dst example_fileSpec) = dst example_fileSpec"
  by (simp add: copyImgFiles_body_def perform_def example_env_def example_fileSpec_def
        os_path_normpath_def split_sep_def os_path_join_def)


text \<open>Splitting and normalising a path that is a concatenation at a separator.\<close>

lemma split_from_append:
  "split_from c piece (a @ c # b) = split_from c piece a @ split_from c [] b"
  by (induction a arbitrary: piece) simp_all

lemma split_sep_append:
  "split_sep c (a @ c # b) = split_sep c a @ split_sep c b"
  by (simp add: split_sep_def split_from_append)

lemma normpath_comps_append:
  "normpath_comps s (xs @ ys) new = normpath_comps s ys (normpath_comps s xs new)"
  by (induction xs arbitrary: new) simp_all

lemma normpath_comps_no_dotdot:
  "''..'' \<notin> set ys \<Longrightarrow>
   normpath_comps s ys new = new @ filter (\<lambda>p. p \<noteq> [] \<and> p \<noteq> ''.'') ys"
  by (induction ys arbitrary: new) auto

lemma str_join_Cons:
  "str_join sep (x # ys) = x @ concat (map ((@) sep) ys)"
  by (induction ys arbitrary: x) simp_all

lemma str_join_append:
  "xs \<noteq> [] \<Longrightarrow> str_join sep (xs @ ys) = str_join sep xs @ concat (map ((@) sep) ys)"
  by (cases xs) (simp_all add: str_join_Cons)

lemma normpath_under_mount:
  assumes norm: "os_path_normpath m = m"
    and abs: "m = CHR ''/'' # c # m'" "c \<noteq> CHR ''/''"
    and nodd: "''..'' \<notin> set (split_sep (CHR ''/'') rest)"
  shows "os_path_normpath (m @ CHR ''/'' # rest) =
           m @ concat (map ((@) ''/'')
                 (filter (\<lambda>p. p \<noteq> [] \<and> p \<noteq> ''.'') (split_sep (CHR ''/'') rest)))"
proof -
  define M where "M = normpath_comps (Suc 0) (split_sep (CHR ''/'') m) []"
  define F where "F = filter (\<lambda>p. p \<noteq> [] \<and> p \<noteq> ''.'') (split_sep (CHR ''/'') rest)"
  from abs have "os_path_normpath m = CHR ''/'' # str_join ''/'' M"
    by (simp add: os_path_normpath_def M_def)
  with norm abs have join_M: "str_join ''/'' M = c # m'" by simp
  then have M_ne: "M \<noteq> []" by auto
  have comps: "normpath_comps (Suc 0) (split_sep (CHR ''/'') (m @ CHR ''/'' # rest)) [] = M @ F"
    by (simp add: split_sep_append normpath_comps_append normpath_comps_no_dotdot [OF nodd]
          M_def F_def)
  from abs have "os_path_normpath (m @ CHR ''/'' # rest) =
      CHR ''/'' # str_join ''/''
        (normpath_comps (Suc 0) (split_sep (CHR ''/'') (m @ CHR ''/'' # rest)) [])"
    by (simp add: os_path_normpath_def)
  also have "\<dots> = CHR ''/'' # str_join ''/'' (M @ F)"
    by (simp only: comps)
  also have "\<dots> = CHR ''/'' # (str_join ''/'' M @ concat (map ((@) ''/'') F))"
    by (simp only: str_join_append [OF M_ne])
  also have "\<dots> = m @ concat (map ((@) ''/'') F)"
    using join_M abs by simp
  finally show ?thesis by (simp only: F_def)
qed

text \<open>
  C4, amended. The target of an inbound copy is \<open>normpath(mnt + dst)\<close>: a
  destination that begins with a path separator is appended to the mount point. For a
  mount point that is a normalised absolute path other than the root, and a
  destination without \<open>..\<close> components, the target is the mount point followed by
  the destination's components (empty and \<open>.\<close> components dropped), each preceded
  by a separator: the copy lands under the mount point.
\<close>

theorem inbound_copy_target:
  assumes "os_path_normpath (mnt e) = mnt e"
    and "mnt e = CHR ''/'' # c # m'" and "c \<noteq> CHR ''/''"
    and "dst f = CHR ''/'' # rest"
    and "''..'' \<notin> set (split_sep (CHR ''/'') rest)"
  shows "copyImgFiles_body e ''in'' f tr =
     (let target = mnt e @ concat (map ((@) ''/'')
                     (filter (\<lambda>p. p \<noteq> [] \<and> p \<noteq> ''.'') (split_sep (CHR ''/'') rest)));
          ev = Run (Shell (''sudo rsync -a --chown=root:root '' @ src f @ '' '' @ target)) None
      in (if fails e tr ev then Inl (ExternalFailure ev) else Inr (), tr @ [ev]))
     \<and> os_path_normpath (mnt e @ dst f)
         = mnt e @ concat (map ((@) ''/'')
                     (filter (\<lambda>p. p \<noteq> [] \<and> p \<noteq> ''.'') (split_sep (CHR ''/'') rest)))"
  using normpath_under_mount [OF assms(1,2,3,5)] assms(4)
  by (simp add: copyImgFiles_body_def perform_def Let_def)

theorem inbound_copy_target_witness:
  "os_path_normpath (mnt example_env) = mnt example_env
   \<and> mnt example_env = CHR ''/'' # CHR ''f'' # ''s/disk-mount''
   \<and> dst example_fileSpec = CHR ''/'' # ''etc/motd''
   \<and> ''..'' \<notin> set (split_sep (CHR ''/'') ''etc/motd'')
   \<and> copyImgFiles_body example_env ''in'' example_fileSpec [] =
       (Inr (), [Run (Shell ''sudo rsync -a --chown=root:root /host/etc/motd /fs/disk-mount/etc/motd'')
                     None])"
proof -
  have 1: "os_path_normpath (mnt example_env) = mnt example_env"
    by (simp add: example_env_def os_path_normpath_def split_sep_def)
  have 2: "mnt example_env = CHR ''/'' # CHR ''f'' # ''s/disk-mount''"
    by (simp add: example_env_def)
  have 3: "CHR ''f'' \<noteq> CHR ''/''" by simp
  have 4: "dst example_fileSpec = CHR ''/'' # ''etc/motd''"
    by (simp add: example_fileSpec_def)
  have 5: "''..'' \<notin> set (split_sep (CHR ''/'') ''etc/motd'')"
    by (simp add: split_sep_def)
  from inbound_copy_target [OF 1 2 3 4 5, of "[]"] 1 2 4 5
  show ?thesis
    by (simp add: split_sep_def example_env_def example_fileSpec_def)
qed

subsection \<open>The order of the boot-script overlays in makeImage\<close>

text \<open>When an action returns normally: what its parts did.\<close>

lemma raiseM_Inr: "raiseM err t = (Inr y, t') \<longleftrightarrow> False"
  by (simp add: raiseM_def)

lemma returnM_Inr: "returnM x t = (Inr y, t') \<longleftrightarrow> y = x \<and> t' = t"
  by (auto simp: returnM_def)

lemma subscript_Inr: "subscript k v t = (Inr x, t') \<longleftrightarrow> v = Some x \<and> t' = t"
  by (cases v) (auto simp: subscript_def raiseM_def returnM_def)

lemma call_Inr:
  "call e ev t = (Inr x, t') \<longleftrightarrow> \<not> fails e t ev \<and> x = returns e t ev \<and> t' = t @ [ev]"
  by (auto simp: call_def)

lemma perform_Inr: "perform e ev t = (Inr u, t') \<longleftrightarrow> \<not> fails e t ev \<and> t' = t @ [ev]"
  by (auto simp: perform_def)

lemma os_path_exists_Inr:
  "os_path_exists e p t = (Inr b, t') \<longleftrightarrow> b = path_exists e t p \<and> t' = t"
  by (auto simp: os_path_exists_def)

lemma bindM_Inr:
  "bindM m f t = (Inr y, t') \<longleftrightarrow> (\<exists>x t1. m t = (Inr x, t1) \<and> f x t1 = (Inr y, t'))"
  by (cases "m t") (auto simp: bindM_def split: sum.splits)

lemma thenM_Inr:
  "thenM m n t = (Inr y, t') \<longleftrightarrow> (\<exists>t1. m t = (Inr (), t1) \<and> n t1 = (Inr y, t'))"
  by (simp add: thenM_def bindM_Inr)

lemma applyOverlay_Inr:
  assumes "applyOverlay e imgfile overlay t = (Inr (), t')"
  shows "t' = t @ [mount_ev e imgfile, overlay_rsync_ev e overlay, umount_ev e]
       \<or> t' = t @ [mkdir_ev e] @ [mount_ev e imgfile, overlay_rsync_ev e overlay, umount_ev e]"
proof -
  have loop: "forM [\<lparr>src = os_path_join overlay ''*'', dst = ''/''\<rparr>] (copyImgFiles_body e ''in'') t0
      = (if fails e t0 (overlay_rsync_ev e overlay)
         then Inl (ExternalFailure (overlay_rsync_ev e overlay)) else Inr (),
         t0 @ [overlay_rsync_ev e overlay])" for t0
    by (simp add: thenM_def bindM_def returnM_def copyImgFiles_body_def perform_def
          overlay_rsync_ev_def)
  from assms show ?thesis
    unfolding applyOverlay_def copyImgFiles_unfold Let_def loop
    by (simp split: if_splits)
qed

lemma generate_and_apply:
  assumes "call e (GenerateBootScriptOverlay bld script) t = (Inr overlay, t1)"
    and "applyOverlay e imgfile overlay t1 = (Inr (), t')"
  shows "overlay_applied e bld script imgfile t t'"
  using assms(1) applyOverlay_Inr [OF assms(2)]
  by (auto simp: call_Inr overlay_applied_def Let_def)


lemma init_phase:
  assumes "bindM (os_path_exists e g) (\<lambda>ex.
                  if \<not> ex then raiseM (ValueError (''Init script '' @ g @ '' not found.''))
                  else
                    bindM (subscript ''builder'' (builder config)) (\<lambda>bld.
                    bindM (call e (GenerateBootScriptOverlay bld (Some g))) (\<lambda>init_overlay.
                    thenM (bindM (subscript ''img'' (img config)) (\<lambda>i.
                             applyOverlay e i init_overlay))
                   (thenM (perform e (CheckCall (getQemuCmd config False)))
                   (bindM (call e (GenerateBootScriptOverlay bld None)) (\<lambda>run_overlay.
                    bindM (subscript ''img'' (img config)) (\<lambda>i.
                      applyOverlay e i run_overlay))))))) t = (Inr (), t')"
  shows "\<exists>bld i t1. builder config = Some bld \<and> img config = Some i
           \<and> overlay_applied e bld (Some g) i t t1
           \<and> overlay_applied e bld None i (t1 @ [CheckCall (getQemuCmd config False)]) t'"
proof -
  from assms obtain bld init_overlay ta i tb run_overlay tc where
    bld: "builder config = Some bld" and i: "img config = Some i"
    and gen1: "call e (GenerateBootScriptOverlay bld (Some g)) t = (Inr init_overlay, ta)"
    and app1: "applyOverlay e i init_overlay ta = (Inr (), tb)"
    and gen2: "call e (GenerateBootScriptOverlay bld None) (tb @ [CheckCall (getQemuCmd config False)])
                = (Inr run_overlay, tc)"
    and app2: "applyOverlay e i run_overlay tc = (Inr (), t')"
    by (auto simp: bindM_Inr thenM_Inr os_path_exists_Inr subscript_Inr perform_Inr raiseM_Inr
          split: if_splits)
  from generate_and_apply [OF gen1 app1] generate_and_apply [OF gen2 app2] bld i
  show ?thesis by blast
qed

lemma run_phase:
  assumes "bindM (case command spec of
                     Some c \<Rightarrow> call e (GenRunScript c)
                   | None \<Rightarrow> (case path spec of
                                None \<Rightarrow> raiseM TypeError
                              | Some p \<Rightarrow> returnM p)) (\<lambda>scriptPath.
            bindM (os_path_exists e scriptPath) (\<lambda>ex.
              if \<not> ex then raiseM (ValueError (''Run script '' @ scriptPath @ '' not found.''))
              else
                bindM (subscript ''builder'' (builder config)) (\<lambda>bld.
                bindM (call e (GenerateBootScriptOverlay bld (Some scriptPath))) (\<lambda>run_overlay.
                bindM (subscript ''img'' (img config)) (\<lambda>i.
                  applyOverlay e i run_overlay))))) t = (Inr (), t')"
  shows "\<exists>bld i scriptPath t1. builder config = Some bld \<and> img config = Some i
           \<and> (case command spec of
                 Some c \<Rightarrow> t1 = t @ [GenRunScript c] \<and> scriptPath = returns e t (GenRunScript c)
               | None \<Rightarrow> t1 = t \<and> path spec = Some scriptPath)
           \<and> overlay_applied e bld (Some scriptPath) i t1 t'"
proof -
  from assms obtain scriptPath t1 bld run_overlay ta i where
    sp: "(case command spec of
                     Some c \<Rightarrow> call e (GenRunScript c)
                   | None \<Rightarrow> (case path spec of
                                None \<Rightarrow> raiseM TypeError
                              | Some p \<Rightarrow> returnM p)) t = (Inr scriptPath, t1)"
    and bld: "builder config = Some bld" and i: "img config = Some i"
    and gen: "call e (GenerateBootScriptOverlay bld (Some scriptPath)) t1 = (Inr run_overlay, ta)"
    and app: "applyOverlay e i run_overlay ta = (Inr (), t')"
    by (auto simp: bindM_Inr os_path_exists_Inr subscript_Inr raiseM_Inr split: if_splits)
  from sp have "(case command spec of
                 Some c \<Rightarrow> t1 = t @ [GenRunScript c] \<and> scriptPath = returns e t (GenRunScript c)
               | None \<Rightarrow> t1 = t \<and> path spec = Some scriptPath)"
    by (auto simp: call_Inr raiseM_Inr returnM_Inr split: option.splits)
  with generate_and_apply [OF gen app] bld i show ?thesis by blast
qed

text \<open>
  C1. When \<open>makeImage\<close> returns normally for a configuration with \<open>guest-init\<close>:
  the init overlay is generated and applied, the image is booted once, and then the
  clearing overlay (generated from no script) is generated and applied. Without
  \<open>runSpec\<close> that application ends the events of the call, so the clearing overlay
  is the last one applied. With \<open>runSpec\<close>, the run script's overlay is generated
  and applied after it (preceded only by the generation of the run script when the
  run specification is a command), and its application ends the events of the call.
\<close>

theorem makeImage_overlay_order:
  assumes "makeImage e config tr = (Inr (), tr')" and "guest_init config = Some g"
  shows "\<exists>bld i tr0 tr1 tr2. builder config = Some bld \<and> img config = Some i
     \<and> overlay_applied e bld (Some g) i tr0 tr1
     \<and> overlay_applied e bld None i (tr1 @ [CheckCall (getQemuCmd config False)]) tr2
     \<and> (case runSpec config of
           None \<Rightarrow> tr' = tr2
         | Some spec \<Rightarrow>
             (\<exists>scriptPath tr3.
                (case command spec of
                   Some c \<Rightarrow> tr3 = tr2 @ [GenRunScript c]
                              \<and> scriptPath = returns e tr2 (GenRunScript c)
                 | None \<Rightarrow> tr3 = tr2 \<and> path spec = Some scriptPath)
                \<and> overlay_applied e bld (Some scriptPath) i tr3 tr'))"
proof -
  from assms obtain tr0 tr2 where
    init: "bindM (os_path_exists e g) (\<lambda>ex.
                  if \<not> ex then raiseM (ValueError (''Init script '' @ g @ '' not found.''))
                  else
                    bindM (subscript ''builder'' (builder config)) (\<lambda>bld.
                    bindM (call e (GenerateBootScriptOverlay bld (Some g))) (\<lambda>init_overlay.
                    thenM (bindM (subscript ''img'' (img config)) (\<lambda>i.
                             applyOverlay e i init_overlay))
                   (thenM (perform e (CheckCall (getQemuCmd config False)))
                   (bindM (call e (GenerateBootScriptOverlay bld None)) (\<lambda>run_overlay.
                    bindM (subscript ''img'' (img config)) (\<lambda>i.
                      applyOverlay e i run_overlay))))))) tr0 = (Inr (), tr2)"
    and run: "(case runSpec config of
          Some spec \<Rightarrow>
            bindM (case command spec of
                     Some c \<Rightarrow> call e (GenRunScript c)
                   | None \<Rightarrow> (case path spec of
                                None \<Rightarrow> raiseM TypeError
                              | Some p \<Rightarrow> returnM p)) (\<lambda>scriptPath.
            bindM (os_path_exists e scriptPath) (\<lambda>ex.
              if \<not> ex then raiseM (ValueError (''Run script '' @ scriptPath @ '' not found.''))
              else
                bindM (subscript ''builder'' (builder config)) (\<lambda>bld.
                bindM (call e (GenerateBootScriptOverlay bld (Some scriptPath))) (\<lambda>run_overlay.
                bindM (subscript ''img'' (img config)) (\<lambda>i.
                  applyOverlay e i run_overlay)))))
        | None \<Rightarrow> returnM ()) tr2 = (Inr (), tr')"
    unfolding makeImage_def thenM_Inr by auto
  from init_phase [OF init] obtain bld i tr1 where
    bld: "builder config = Some bld" and i: "img config = Some i"
    and o1: "overlay_applied e bld (Some g) i tr0 tr1"
    and o2: "overlay_applied e bld None i (tr1 @ [CheckCall (getQemuCmd config False)]) tr2"
    by blast
  show ?thesis
  proof (cases "runSpec config")
    case None
    with run have "tr' = tr2" by (simp add: returnM_Inr)
    with None bld i o1 o2 show ?thesis by auto
  next
    case (Some spec)
    with run run_phase [of spec e config tr2 tr'] bld i
    have "\<exists>scriptPath tr3.
                (case command spec of
                   Some c \<Rightarrow> tr3 = tr2 @ [GenRunScript c]
                              \<and> scriptPath = returns e tr2 (GenRunScript c)
                 | None \<Rightarrow> tr3 = tr2 \<and> path spec = Some scriptPath)
                \<and> overlay_applied e bld (Some scriptPath) i tr3 tr'"
      by auto
    with Some have "case runSpec config of
           None \<Rightarrow> tr' = tr2
         | Some spec \<Rightarrow>
             (\<exists>scriptPath tr3.
                (case command spec of
                   Some c \<Rightarrow> tr3 = tr2 @ [GenRunScript c]
                              \<and> scriptPath = returns e tr2 (GenRunScript c)
                 | None \<Rightarrow> tr3 = tr2 \<and> path spec = Some scriptPath)
                \<and> overlay_applied e bld (Some scriptPath) i tr3 tr')"
      by simp
    with bld i o1 o2 show ?thesis by blast
  qed
qed


lemma example_applyOverlay:
  "applyOverlay example_env imgfile overlay t =
     (Inr (), t @ [mount_ev example_env imgfile, overlay_rsync_ev example_env overlay,
                   umount_ev example_env])"
  by (simp add: applyOverlay_def copyImgFiles_unfold thenM_def bindM_def returnM_def
        copyImgFiles_body_def perform_def overlay_rsync_ev_def example_env_def)

theorem makeImage_overlay_order_witness:
  "guest_init example_init_config = Some ''/host/init.sh''
   \<and> runSpec example_init_config = None
   \<and> makeImage example_env example_init_config [] =
       (Inr (),
        [GenerateBootScriptOverlay ''br'' (Some ''/host/init.sh''),
         mount_ev example_env ''test.img'',
         overlay_rsync_ev example_env ''/tmp/overlay/host/init.sh'',
         umount_ev example_env,
         CheckCall (getQemuCmd example_init_config False),
         GenerateBootScriptOverlay ''br'' None,
         mount_ev example_env ''test.img'',
         overlay_rsync_ev example_env ''/tmp/overlay-clear'',
         umount_ev example_env])
   \<and> guest_init example_run_config = Some ''/host/init.sh''
   \<and> makeImage example_env example_run_config [] =
       (Inr (),
        [GenerateBootScriptOverlay ''br'' (Some ''/host/init.sh''),
         mount_ev example_env ''test.img'',
         overlay_rsync_ev example_env ''/tmp/overlay/host/init.sh'',
         umount_ev example_env,
         CheckCall (getQemuCmd example_run_config False),
         GenerateBootScriptOverlay ''br'' None,
         mount_ev example_env ''test.img'',
         overlay_rsync_ev example_env ''/tmp/overlay-clear'',
         umount_ev example_env,
         GenerateBootScriptOverlay ''br'' (Some ''/host/run.sh''),
         mount_ev example_env ''test.img'',
         overlay_rsync_ev example_env ''/tmp/overlay/host/run.sh'',
         umount_ev example_env])"
proof -
  have env: "fails example_env = (\<lambda>tr ev. False)" "path_exists example_env = (\<lambda>tr p. True)"
    "returns example_env t (GenerateBootScriptOverlay b None) = ''/tmp/overlay-clear''"
    "returns example_env t (GenerateBootScriptOverlay b (Some s)) = ''/tmp/overlay'' @ s"
    for t b s
    by (simp_all add: example_env_def)
  have 1: "makeImage example_env example_init_config [] =
       (Inr (),
        [GenerateBootScriptOverlay ''br'' (Some ''/host/init.sh''),
         mount_ev example_env ''test.img'',
         overlay_rsync_ev example_env ''/tmp/overlay/host/init.sh'',
         umount_ev example_env,
         CheckCall (getQemuCmd example_init_config False),
         GenerateBootScriptOverlay ''br'' None,
         mount_ev example_env ''test.img'',
         overlay_rsync_ev example_env ''/tmp/overlay-clear'',
         umount_ev example_env])"
    by (simp add: makeImage_def example_init_config_def example_config_def thenM_def bindM_def
          returnM_def os_path_exists_def subscript_def call_def perform_def env
          example_applyOverlay)
  have 2: "guest_init example_init_config = Some ''/host/init.sh''"
    by (simp add: example_init_config_def)
  have 3: "makeImage example_env example_run_config [] =
       (Inr (),
        [GenerateBootScriptOverlay ''br'' (Some ''/host/init.sh''),
         mount_ev example_env ''test.img'',
         overlay_rsync_ev example_env ''/tmp/overlay/host/init.sh'',
         umount_ev example_env,
         CheckCall (getQemuCmd example_run_config False),
         GenerateBootScriptOverlay ''br'' None,
         mount_ev example_env ''test.img'',
         overlay_rsync_ev example_env ''/tmp/overlay-clear'',
         umount_ev example_env,
         GenerateBootScriptOverlay ''br'' (Some ''/host/run.sh''),
         mount_ev example_env ''test.img'',
         overlay_rsync_ev example_env ''/tmp/overlay/host/run.sh'',
         umount_ev example_env])"
    by (simp add: makeImage_def example_run_config_def example_init_config_def example_config_def
          thenM_def bindM_def returnM_def os_path_exists_def subscript_def call_def perform_def
          env example_applyOverlay)
  have 4: "guest_init example_run_config = Some ''/host/init.sh''"
    by (simp add: example_run_config_def example_init_config_def)
  have 5: "runSpec example_init_config = None"
    by (simp add: example_init_config_def example_config_def)
  from makeImage_overlay_order [OF 1 2] makeImage_overlay_order [OF 3 4] 1 2 3 4 5
  show ?thesis by simp
qed

end
